theory Spec2Isabelle
  imports Complex_Main "HOL-Library.Multiset"
begin

section \<open>JavaScript numbers\<close>

text \<open>
  A JavaScript \<open>number\<close> is modelled as an exact rational, or one of the three special
  values \<open>NaN\<close>, \<open>+Infinity\<close> and \<open>-Infinity\<close>. Arithmetic on finite values is exact:
  the rounding error of IEEE-754 doubles, overflow to infinity and the sign of zero are
  not modelled. Comparisons with \<open>NaN\<close> are false, as in the language.
\<close>

datatype number = Fin rat | NaN | PosInf | NegInf

fun isNaN :: "number \<Rightarrow> bool" where
  "isNaN NaN = True"
| "isNaN _ = False"

fun isFinite :: "number \<Rightarrow> bool" where
  "isFinite (Fin _) = True"
| "isFinite _ = False"

text \<open>\<open>a < b\<close>\<close>

fun num_lt :: "number \<Rightarrow> number \<Rightarrow> bool" where
  "num_lt (Fin a) (Fin b) = (a < b)"
| "num_lt (Fin a) PosInf = True"
| "num_lt NegInf (Fin b) = True"
| "num_lt NegInf PosInf = True"
| "num_lt _ _ = False"

text \<open>\<open>a <= b\<close>\<close>

fun num_le :: "number \<Rightarrow> number \<Rightarrow> bool" where
  "num_le (Fin a) (Fin b) = (a \<le> b)"
| "num_le (Fin a) PosInf = True"
| "num_le NegInf (Fin b) = True"
| "num_le NegInf PosInf = True"
| "num_le PosInf PosInf = True"
| "num_le NegInf NegInf = True"
| "num_le _ _ = False"

definition num_gt :: "number \<Rightarrow> number \<Rightarrow> bool" where
  "num_gt a b = num_lt b a"


fun num_neg :: "number \<Rightarrow> number" where
  "num_neg (Fin a) = Fin (- a)"
| "num_neg NaN = NaN"
| "num_neg PosInf = NegInf"
| "num_neg NegInf = PosInf"

text \<open>\<open>a + b\<close>\<close>

fun num_add :: "number \<Rightarrow> number \<Rightarrow> number" where
  "num_add (Fin a) (Fin b) = Fin (a + b)"
| "num_add NaN _ = NaN"
| "num_add _ NaN = NaN"
| "num_add PosInf NegInf = NaN"
| "num_add NegInf PosInf = NaN"
| "num_add PosInf _ = PosInf"
| "num_add _ PosInf = PosInf"
| "num_add NegInf _ = NegInf"
| "num_add _ NegInf = NegInf"

text \<open>\<open>a - b\<close>\<close>

definition num_sub :: "number \<Rightarrow> number \<Rightarrow> number" where
  "num_sub a b = num_add a (num_neg b)"

text \<open>\<open>a * b\<close>: an infinity times zero is \<open>NaN\<close>.\<close>

fun num_mul :: "number \<Rightarrow> number \<Rightarrow> number" where
  "num_mul (Fin a) (Fin b) = Fin (a * b)"
| "num_mul NaN _ = NaN"
| "num_mul _ NaN = NaN"
| "num_mul PosInf (Fin b) = (if b = 0 then NaN else if 0 < b then PosInf else NegInf)"
| "num_mul NegInf (Fin b) = (if b = 0 then NaN else if 0 < b then NegInf else PosInf)"
| "num_mul (Fin a) PosInf = (if a = 0 then NaN else if 0 < a then PosInf else NegInf)"
| "num_mul (Fin a) NegInf = (if a = 0 then NaN else if 0 < a then NegInf else PosInf)"
| "num_mul PosInf PosInf = PosInf"
| "num_mul NegInf NegInf = PosInf"
| "num_mul PosInf NegInf = NegInf"
| "num_mul NegInf PosInf = NegInf"

text \<open>\<open>Math.max(a, b)\<close> and \<open>Math.min(a, b)\<close>: \<open>NaN\<close> when an argument is.\<close>

definition Math_max :: "number \<Rightarrow> number \<Rightarrow> number" where
  "Math_max a b = (if isNaN a \<or> isNaN b then NaN else if num_lt a b then b else a)"

definition Math_min :: "number \<Rightarrow> number \<Rightarrow> number" where
  "Math_min a b = (if isNaN a \<or> isNaN b then NaN else if num_lt b a then b else a)"

text \<open>
  \<open>Number(x.toFixed(2))\<close>, the idiom the source uses to round to two decimals.
  \<open>toFixed\<close> picks the integer \<open>n\<close> with \<open>n / 100\<close> nearest to \<open>|x|\<close>, the larger one on
  a tie, and keeps the sign; from \<open>10^21\<close> on it prints the number as \<open>String\<close> does,
  and reading that text back gives the number itself. \<open>NaN\<close> and the infinities print
  as their names and read back as themselves.
\<close>

definition round2 :: "rat \<Rightarrow> rat" where
  "round2 x = sgn x * (of_int \<lfloor>\<bar>x\<bar> * 100 + 1 / 2\<rfloor> / 100)"

definition fixed2 :: "rat \<Rightarrow> rat" where
  "fixed2 x = (if \<bar>x\<bar> < 10 ^ 21 then round2 x else x)"

fun toFixed2 :: "number \<Rightarrow> number" where
  "toFixed2 (Fin x) = Fin (fixed2 x)"
| "toFixed2 n = n"

section \<open>The playback synchronizer's poll tick (youtube-player.tsx)\<close>











section \<open>JavaScript strings\<close>

text \<open>
  A string is the list of the bytes of its UTF-8 encoding (type \<open>string\<close>), so the ASCII
  characters the source tests for are single elements. \<open>String.prototype.trim\<close> removes
  the white space and line terminators of the language from both ends: the ASCII ones,
  and the byte sequences of U+00A0, U+1680, U+2000 to U+200A, U+2028, U+2029, U+202F,
  U+205F, U+3000 and U+FEFF.
\<close>

definition white_space :: "string list" where
  "white_space =
     [[CHR 0x09], [CHR 0x0A], [CHR 0x0B], [CHR 0x0C], [CHR 0x0D], [CHR 0x20],
      [CHR 0xC2, CHR 0xA0],
      [CHR 0xE1, CHR 0x9A, CHR 0x80],
      [CHR 0xE2, CHR 0x80, CHR 0x80], [CHR 0xE2, CHR 0x80, CHR 0x81],
      [CHR 0xE2, CHR 0x80, CHR 0x82], [CHR 0xE2, CHR 0x80, CHR 0x83],
      [CHR 0xE2, CHR 0x80, CHR 0x84], [CHR 0xE2, CHR 0x80, CHR 0x85],
      [CHR 0xE2, CHR 0x80, CHR 0x86], [CHR 0xE2, CHR 0x80, CHR 0x87],
      [CHR 0xE2, CHR 0x80, CHR 0x88], [CHR 0xE2, CHR 0x80, CHR 0x89],
      [CHR 0xE2, CHR 0x80, CHR 0x8A],
      [CHR 0xE2, CHR 0x80, CHR 0xA8], [CHR 0xE2, CHR 0x80, CHR 0xA9],
      [CHR 0xE2, CHR 0x80, CHR 0xAF],
      [CHR 0xE2, CHR 0x81, CHR 0x9F],
      [CHR 0xE3, CHR 0x80, CHR 0x80],
      [CHR 0xEF, CHR 0xBB, CHR 0xBF]]"

text \<open>The length of the sequence of \<open>ws\<close> the string starts with, 0 when there is none.\<close>

definition match_len :: "string list \<Rightarrow> string \<Rightarrow> nat" where
  "match_len ws s =
     (case find (\<lambda>w. take (length w) s = w) ws of None \<Rightarrow> 0 | Some w \<Rightarrow> length w)"

function strip :: "string list \<Rightarrow> string \<Rightarrow> string" where
  "strip ws s = (if match_len ws s = 0 then s else strip ws (drop (match_len ws s) s))"
  by pat_completeness auto
termination
proof (relation "measure (\<lambda>(ws, s). length s)")
  show "wf (measure (\<lambda>(ws, s). length s))" by simp
next
  fix ws :: "string list" and s :: string
  assume "match_len ws s \<noteq> 0"
  moreover from this have "s \<noteq> []"
    by (auto simp: match_len_def split: option.splits dest: find_Some_iff [THEN iffD1])
  ultimately show "((ws, drop (match_len ws s) s), (ws, s)) \<in> measure (\<lambda>(ws, s). length s)"
    by simp
qed

declare strip.simps [simp del]

definition trim :: "string \<Rightarrow> string" where
  "trim s = rev (strip (map rev white_space) (rev (strip white_space s)))"

text \<open>\<open>s.split(c)\<close> for a one-character separator: never the empty list.\<close>

fun split_on :: "char \<Rightarrow> string \<Rightarrow> string list" where
  "split_on c [] = [[]]"
| "split_on c (x # xs) =
     (if x = c then [] # split_on c xs
      else (case split_on c xs of [] \<Rightarrow> [[x]] | y # ys \<Rightarrow> (x # y) # ys))"

text \<open>\<open>xs[i] ?? null\<close>\<close>

definition nth_or_null :: "'a list \<Rightarrow> nat \<Rightarrow> 'a option" where
  "nth_or_null xs i = (if i < length xs then Some (xs ! i) else None)"

text \<open>\<open>xs.indexOf(x)\<close>, \<open>None\<close> for -1.\<close>

fun indexOf :: "'a list \<Rightarrow> 'a \<Rightarrow> nat option" where
  "indexOf [] a = None"
| "indexOf (x # xs) a = (if x = a then Some 0 else map_option Suc (indexOf xs a))"

section \<open>The identifier extractor (lib/youtube.ts)\<close>

text \<open>
  What \<open>new URL(text)\<close> gives, as far as the source reads it: the host name, the path
  and the decoded query parameters in their order. \<open>searchParams.get(name)\<close> is the
  value of the first pair of that name.
\<close>

record url =
  hostname :: string
  pathname :: string
  searchParams :: "(string \<times> string) list"

definition searchParams_get :: "url \<Rightarrow> string \<Rightarrow> string option" where
  "searchParams_get u name = map_of (searchParams u) name"

text \<open>The character class \<open>[a-zA-Z0-9_-]\<close> and the pattern \<open>/^[a-zA-Z0-9_-]{11}$/\<close>.\<close>

definition is_digit :: "char \<Rightarrow> bool" where
  "is_digit c = (let n = (of_char c :: nat) in 48 \<le> n \<and> n \<le> 57)"

definition is_alpha :: "char \<Rightarrow> bool" where
  "is_alpha c = (let n = (of_char c :: nat) in (65 \<le> n \<and> n \<le> 90) \<or> (97 \<le> n \<and> n \<le> 122))"

definition id_char :: "char \<Rightarrow> bool" where
  "id_char c = (is_alpha c \<or> is_digit c \<or> c = CHR ''_'' \<or> c = CHR ''-'')"

definition YOUTUBE_ID_PATTERN :: "string \<Rightarrow> bool" where
  "YOUTUBE_ID_PATTERN s = (length s = 11 \<and> list_all id_char s)"

text \<open>\<open>hostname.replace(/^www\./, "")\<close>\<close>

definition strip_www :: "string \<Rightarrow> string" where
  "strip_www h = (if take 4 h = ''www.'' then drop 4 h else h)"

text \<open>\<open>pathname.split("/").filter(Boolean)\<close>\<close>

definition path_segments :: "string \<Rightarrow> string list" where
  "path_segments path = filter (\<lambda>s. s \<noteq> []) (split_on CHR ''/'' path)"

text \<open>
  The platform's \<open>URL\<close> constructor is a parameter \<open>URL_new\<close> of the extractor: \<open>None\<close>
  stands for the \<open>TypeError\<close> it throws on text that is not a URL, which the source
  catches.

  The file holds two versions of \<open>extractYouTubeId\<close>. The first returns the candidate
  it finds in the URL as it is.
\<close>

definition extractYouTubeId_v1 :: "(string \<Rightarrow> url option) \<Rightarrow> string \<Rightarrow> string option" where
  "extractYouTubeId_v1 URL_new input =
     (let trimmed = trim input in
      if trimmed = [] then None
      else if YOUTUBE_ID_PATTERN trimmed then Some trimmed
      else
        (case URL_new trimmed of
           None \<Rightarrow> None
         | Some u \<Rightarrow>
             (let host = strip_www (hostname u) in
              if host = ''youtu.be'' then nth_or_null (path_segments (pathname u)) 0
              else if host = ''youtube.com'' \<or> host = ''m.youtube.com'' then
                (case searchParams_get u ''v'' of
                   Some (c # cs) \<Rightarrow> Some (c # cs)
                 | _ \<Rightarrow>
                     (let segments = path_segments (pathname u) in
                      case indexOf segments ''embed'' of
                        Some embedIndex \<Rightarrow> nth_or_null segments (embedIndex + 1)
                      | None \<Rightarrow> None))
              else if host = ''youtube-nocookie.com'' then
                (let segments = path_segments (pathname u) in
                 case indexOf segments ''embed'' of
                   Some embedIndex \<Rightarrow> nth_or_null segments (embedIndex + 1)
                 | None \<Rightarrow> None)
              else None)))"

text \<open>The second version passes every candidate through \<open>normalizeYouTubeId\<close>.\<close>

definition normalizeYouTubeId :: "string option \<Rightarrow> string option" where
  "normalizeYouTubeId v =
     (case v of
        None \<Rightarrow> None
      | Some s \<Rightarrow>
          if s = [] then None
          else (let trimmed = trim s in
                if YOUTUBE_ID_PATTERN trimmed then Some trimmed else None))"

definition extractYouTubeId :: "(string \<Rightarrow> url option) \<Rightarrow> string \<Rightarrow> string option" where
  "extractYouTubeId URL_new input =
     (let trimmed = trim input in
      if trimmed = [] then None
      else
        (case normalizeYouTubeId (Some trimmed) of
           Some directId \<Rightarrow> Some directId
         | None \<Rightarrow>
             (case URL_new trimmed of
                None \<Rightarrow> None
              | Some u \<Rightarrow>
                  (let host = strip_www (hostname u) in
                   if host = ''youtu.be''
                   then normalizeYouTubeId (nth_or_null (path_segments (pathname u)) 0)
                   else if host = ''youtube.com'' \<or> host = ''m.youtube.com'' then
                     (case normalizeYouTubeId (searchParams_get u ''v'') of
                        Some idFromQuery \<Rightarrow> Some idFromQuery
                      | None \<Rightarrow>
                          (let segments = path_segments (pathname u) in
                           case indexOf segments ''embed'' of
                             Some embedIndex \<Rightarrow>
                               normalizeYouTubeId (nth_or_null segments (embedIndex + 1))
                           | None \<Rightarrow> None))
                   else if host = ''youtube-nocookie.com'' then
                     (let segments = path_segments (pathname u) in
                      case indexOf segments ''embed'' of
                        Some embedIndex \<Rightarrow>
                          normalizeYouTubeId (nth_or_null segments (embedIndex + 1))
                      | None \<Rightarrow> None)
                   else None))))"

section \<open>The platform's URL functions\<close>

text \<open>
  \<open>URLSearchParams.prototype.toString\<close>: the \<open>application/x-www-form-urlencoded\<close>
  serializer. A byte is kept when it is an ASCII letter or digit or one of \<open>* - . _\<close>,
  a space becomes \<open>+\<close>, every other byte becomes \<open>%\<close> and two upper-case hex digits.
\<close>

definition hex_digit :: "nat \<Rightarrow> char" where
  "hex_digit n = ''0123456789ABCDEF'' ! (n mod 16)"

definition form_safe :: "char \<Rightarrow> bool" where
  "form_safe c =
     (is_alpha c \<or> is_digit c \<or> c = CHR ''*'' \<or> c = CHR ''-'' \<or> c = CHR ''.'' \<or> c = CHR ''_'')"

definition form_encode_byte :: "char \<Rightarrow> string" where
  "form_encode_byte c =
     (if form_safe c then [c]
      else if c = CHR '' '' then ''+''
      else [CHR ''%'', hex_digit (of_char c div 16), hex_digit (of_char c mod 16)])"

definition form_encode :: "string \<Rightarrow> string" where
  "form_encode s = concat (map form_encode_byte s)"

fun join_with :: "string \<Rightarrow> string list \<Rightarrow> string" where
  "join_with sep [] = []"
| "join_with sep [x] = x"
| "join_with sep (x # y # ys) = x @ sep @ join_with sep (y # ys)"

definition URLSearchParams_toString :: "(string \<times> string) list \<Rightarrow> string" where
  "URLSearchParams_toString ps =
     join_with ''&'' (map (\<lambda>(k, v). form_encode k @ ''='' @ form_encode v) ps)"

text \<open>
  \<open>searchParams.set(name, value)\<close>: the first pair of that name gets the value and the
  later ones go; a new pair is appended when there is none.
\<close>

definition searchParams_set :: "(string \<times> string) list \<Rightarrow> string \<Rightarrow> string \<Rightarrow> (string \<times> string) list" where
  "searchParams_set ps name v =
     (if name \<in> fst ` set ps
      then takeWhile (\<lambda>kv. fst kv \<noteq> name) ps @ (name, v)
           # filter (\<lambda>kv. fst kv \<noteq> name) (drop 1 (dropWhile (\<lambda>kv. fst kv \<noteq> name) ps))
      else ps @ [(name, v)])"

text \<open>
  The parser of the query: split at \<open>&\<close>, skip the empty pieces, split each at its
  first \<open>=\<close>, turn \<open>+\<close> into a space and decode the percent escapes. (The platform
  then replaces bytes that are not UTF-8 by U+FFFD; that replacement is not modelled.)
\<close>

definition hex_val :: "char \<Rightarrow> nat option" where
  "hex_val c =
     (let n = (of_char c :: nat) in
      if 48 \<le> n \<and> n \<le> 57 then Some (n - 48)
      else if 65 \<le> n \<and> n \<le> 70 then Some (n - 55)
      else if 97 \<le> n \<and> n \<le> 102 then Some (n - 87)
      else None)"

fun percent_decode :: "string \<Rightarrow> string" where
  "percent_decode (c # h1 # h2 # r) =
     (case (c = CHR ''%'', hex_val h1, hex_val h2) of
        (True, Some a, Some b) \<Rightarrow> char_of (16 * a + b) # percent_decode r
      | _ \<Rightarrow> c # percent_decode (h1 # h2 # r))"
| "percent_decode s = s"

definition form_decode :: "string \<Rightarrow> string" where
  "form_decode s = percent_decode (map (\<lambda>c. if c = CHR ''+'' then CHR '' '' else c) s)"

definition parse_query :: "string \<Rightarrow> (string \<times> string) list" where
  "parse_query q =
     map (\<lambda>s. (form_decode (takeWhile (\<lambda>c. c \<noteq> CHR ''='') s),
                form_decode (drop 1 (dropWhile (\<lambda>c. c \<noteq> CHR ''='') s))))
       (filter (\<lambda>s. s \<noteq> []) (split_on CHR ''&'' q))"

text \<open>
  A model of \<open>new URL(text)\<close> on the URLs of the shape the application handles:
  \<open>http://\<close> or \<open>https://\<close>, a host name of lower-case letters, digits, dots and hyphens, a
  path of letters, digits, \<open>_\<close>, \<open>-\<close> and \<open>/\<close>, an optional query and an optional fragment.
  As the platform does, it first drops control characters and spaces at both ends and
  every tab and line break. Text outside this shape is rejected here, although the
  platform accepts more (other schemes, ports, user names, dot segments); the theorems
  about the extractor that do not name \<open>URL_parse\<close> hold for every parser.
\<close>

definition is_c0_or_space :: "char \<Rightarrow> bool" where
  "is_c0_or_space c = ((of_char c :: nat) \<le> 32)"

definition is_tab_or_newline :: "char \<Rightarrow> bool" where
  "is_tab_or_newline c = (c = CHR 0x09 \<or> c = CHR 0x0A \<or> c = CHR 0x0D)"

definition url_host_char :: "char \<Rightarrow> bool" where
  "url_host_char c =
     ((let n = (of_char c :: nat) in 97 \<le> n \<and> n \<le> 122) \<or> is_digit c \<or> c = CHR ''.'' \<or> c = CHR ''-'')"

definition url_path_char :: "char \<Rightarrow> bool" where
  "url_path_char c = (id_char c \<or> c = CHR ''/'')"

definition url_delim :: "char \<Rightarrow> bool" where
  "url_delim c = (c = CHR ''/'' \<or> c = CHR ''?'' \<or> c = CHR ''#'')"

definition URL_after_scheme :: "string \<Rightarrow> url option" where
  "URL_after_scheme r =
     (let host = takeWhile (\<lambda>c. \<not> url_delim c) r;
          r1 = dropWhile (\<lambda>c. \<not> url_delim c) r;
          path = takeWhile (\<lambda>c. c \<noteq> CHR ''?'' \<and> c \<noteq> CHR ''#'') r1;
          r2 = dropWhile (\<lambda>c. c \<noteq> CHR ''?'' \<and> c \<noteq> CHR ''#'') r1;
          query = (if take 1 r2 = ''?'' then takeWhile (\<lambda>c. c \<noteq> CHR ''#'') (drop 1 r2) else [])
      in if host = [] \<or> \<not> list_all url_host_char host \<or> \<not> list_all url_path_char path
         then None
         else Some \<lparr>hostname = host,
                    pathname = (if path = [] then ''/'' else path),
                    searchParams = parse_query query\<rparr>)"

definition URL_parse :: "string \<Rightarrow> url option" where
  "URL_parse text =
     (let s = filter (\<lambda>c. \<not> is_tab_or_newline c)
                (rev (dropWhile is_c0_or_space (rev (dropWhile is_c0_or_space text))))
      in if take 8 s = ''https://'' then URL_after_scheme (drop 8 s)
         else if take 7 s = ''http://'' then URL_after_scheme (drop 7 s)
         else None)"

section \<open>Numbers and text\<close>

text \<open>
  The value of a string of decimal digits, and the decimal digits of an integer that is
  not negative. (Integers rather than naturals, so that large values evaluate.)
\<close>

definition digit_val :: "char \<Rightarrow> int" where
  "digit_val c = of_char c - 48"

definition digits_val :: "string \<Rightarrow> int" where
  "digits_val s = foldl (\<lambda>a c. 10 * a + digit_val c) 0 s"

definition digit_char :: "int \<Rightarrow> char" where
  "digit_char n = ''0123456789'' ! nat (n mod 10)"

function digits_of :: "int \<Rightarrow> string" where
  "digits_of n = (if n < 10 then [digit_char n] else digits_of (n div 10) @ [digit_char n])"
  by pat_completeness auto
termination
  by (relation "measure nat") auto

declare digits_of.simps [simp del]

text \<open>
  \<open>Number.prototype.toString\<close> on a number whose value is an integer: the decimal
  digits below \<open>10^21\<close>, and from there on the exponent notation \<open>d.ddde+n\<close> with the
  trailing zeros of the digits dropped; a minus sign first when it is negative.
\<close>

definition drop_trailing_zeros :: "string \<Rightarrow> string" where
  "drop_trailing_zeros s = rev (dropWhile (\<lambda>c. c = CHR ''0'') (rev s))"

definition toString_nonneg :: "int \<Rightarrow> string" where
  "toString_nonneg n =
     (if n < 10 ^ 21 then digits_of n
      else (let ds = digits_of n; sig = drop_trailing_zeros ds
            in take 1 sig @ (if length sig > 1 then ''.'' @ drop 1 sig else [])
               @ ''e+'' @ digits_of (int (length ds) - 1)))"

definition toString_int :: "int \<Rightarrow> string" where
  "toString_int n = (if n < 0 then ''-'' @ toString_nonneg (- n) else toString_nonneg n)"


text \<open>
  \<open>Number(text)\<close> on a string (\<open>StringToNumber\<close>): white space at both ends is dropped;
  the empty text is 0; then a binary, octal or hexadecimal integer with its prefix, or
  an optionally signed \<open>Infinity\<close> or decimal literal with an optional exponent; anything
  else is \<open>NaN\<close>.
\<close>

definition radix_val :: "nat \<Rightarrow> string \<Rightarrow> int option" where
  "radix_val b s =
     (if s \<noteq> [] \<and> list_all (\<lambda>c. case hex_val c of Some d \<Rightarrow> d < b | None \<Rightarrow> False) s
      then Some (foldl (\<lambda>a c. int b * a + (case hex_val c of Some d \<Rightarrow> int d | None \<Rightarrow> 0)) 0 s)
      else None)"

definition exponent_part :: "string \<Rightarrow> int option" where
  "exponent_part s =
     (if s = [] then Some 0
      else if hd s = CHR ''e'' \<or> hd s = CHR ''E'' then
        (let r = tl s;
             neg = (take 1 r = ''-'');
             ds = (if take 1 r = ''-'' \<or> take 1 r = ''+'' then drop 1 r else r)
         in if ds \<noteq> [] \<and> list_all is_digit ds
            then Some (if neg then - digits_val ds else digits_val ds)
            else None)
      else None)"

definition scale10 :: "rat \<Rightarrow> int \<Rightarrow> rat" where
  "scale10 m e = (if 0 \<le> e then m * 10 ^ nat e else m / 10 ^ nat (- e))"

definition unsigned_decimal :: "string \<Rightarrow> rat option" where
  "unsigned_decimal s =
     (let ip = takeWhile is_digit s;
          r1 = dropWhile is_digit s;
          dot = (take 1 r1 = ''.'');
          fp = (if dot then takeWhile is_digit (drop 1 r1) else []);
          r2 = (if dot then dropWhile is_digit (drop 1 r1) else r1)
      in if ip = [] \<and> fp = [] then None
         else (case exponent_part r2 of
                 None \<Rightarrow> None
               | Some e \<Rightarrow>
                   Some (scale10 (of_int (digits_val ip) + of_int (digits_val fp) / 10 ^ length fp) e)))"

definition StringToNumber :: "string \<Rightarrow> number" where
  "StringToNumber str =
     (let s = trim str in
      if s = [] then Fin 0
      else if take 2 s = ''0x'' \<or> take 2 s = ''0X'' then
        (case radix_val 16 (drop 2 s) of Some n \<Rightarrow> Fin (of_int n) | None \<Rightarrow> NaN)
      else if take 2 s = ''0o'' \<or> take 2 s = ''0O'' then
        (case radix_val 8 (drop 2 s) of Some n \<Rightarrow> Fin (of_int n) | None \<Rightarrow> NaN)
      else if take 2 s = ''0b'' \<or> take 2 s = ''0B'' then
        (case radix_val 2 (drop 2 s) of Some n \<Rightarrow> Fin (of_int n) | None \<Rightarrow> NaN)
      else
        (let neg = (take 1 s = ''-'');
             u = (if take 1 s = ''-'' \<or> take 1 s = ''+'' then drop 1 s else s)
         in if u = ''Infinity'' then (if neg then NegInf else PosInf)
            else (case unsigned_decimal u of
                    None \<Rightarrow> NaN
                  | Some r \<Rightarrow> Fin (if neg then - r else r))))"

text \<open>
  \<open>Number.parseInt(text, 10)\<close>: leading white space, an optional sign, then the longest
  run of decimal digits; \<open>NaN\<close> when there is no digit.
\<close>

definition parseInt10 :: "string \<Rightarrow> number" where
  "parseInt10 str =
     (let s = strip white_space str;
          neg = (take 1 s = ''-'');
          u = (if take 1 s = ''-'' \<or> take 1 s = ''+'' then drop 1 s else s);
          ds = takeWhile is_digit u
      in if ds = [] then NaN
         else Fin (if neg then - of_int (digits_val ds) else of_int (digits_val ds)))"

section \<open>JSON values and the coercion to a number\<close>

text \<open>
  What \<open>JSON.parse\<close> returns and \<open>JSON.stringify\<close> takes. The pairs of an object are
  in the order of the text; a property is read from the last pair of its name, as the
  object \<open>JSON.parse\<close> builds has it. \<open>None\<close> is \<open>undefined\<close>.
\<close>

datatype json =
    JNull
  | JBool bool
  | JNum number
  | JStr string
  | JArr "json list"
  | JObj "(string \<times> json) list"

datatype exn = SyntaxError | TypeError

fun get_prop :: "json \<Rightarrow> string \<Rightarrow> json option" where
  "get_prop (JObj kvs) k = map_of (rev kvs) k"
| "get_prop _ k = None"

text \<open>\<open>entry && typeof entry === "object"\<close>: objects and arrays.\<close>

fun is_object :: "json \<Rightarrow> bool" where
  "is_object (JArr _) = True"
| "is_object (JObj _) = True"
| "is_object _ = False"

fun isArray :: "json \<Rightarrow> bool" where
  "isArray (JArr _) = True"
| "isArray _ = False"

text \<open>
  \<open>Number(value)\<close> on a value that is not a number. An object or array is first turned
  into a string: an array joins the strings of its elements with commas (nothing for
  \<open>null\<close>), an object is \<open>[object Object]\<close>. Turning an object into a string throws a
  \<open>TypeError\<close> when the object has a property \<open>toString\<close> of its own, since a JSON value
  is not callable. The text of an array with two or more elements has a comma and so is
  not a number; the text of a number reads back as that number.
\<close>

fun toString_throws :: "json \<Rightarrow> bool" where
  "toString_throws (JObj kvs) = (map_of kvs ''toString'' \<noteq> None)"
| "toString_throws (JArr xs) = list_ex toString_throws xs"
| "toString_throws _ = False"

fun ToNumber_value :: "json \<Rightarrow> number" where
  "ToNumber_value JNull = Fin 0"
| "ToNumber_value (JBool b) = (if b then Fin 1 else Fin 0)"
| "ToNumber_value (JNum n) = n"
| "ToNumber_value (JStr s) = StringToNumber s"
| "ToNumber_value (JObj kvs) = NaN"
| "ToNumber_value (JArr []) = Fin 0"
| "ToNumber_value (JArr [x]) =
     (case x of
        JNull \<Rightarrow> Fin 0
      | JBool b \<Rightarrow> NaN
      | JNum n \<Rightarrow> n
      | JStr s \<Rightarrow> StringToNumber s
      | JArr ys \<Rightarrow> ToNumber_value x
      | JObj kvs \<Rightarrow> NaN)"
| "ToNumber_value (JArr (x # y # zs)) = NaN"

definition ToNumber :: "json option \<Rightarrow> exn + number" where
  "ToNumber v =
     (case v of
        None \<Rightarrow> Inr NaN
      | Some j \<Rightarrow> if toString_throws j then Inl TypeError else Inr (ToNumber_value j))"

section \<open>The segment codec and the link builder (lib/segments.ts)\<close>

record LoopSegment =
  seg_id :: string
  seg_label :: string
  seg_start :: number
  seg_end :: number

text \<open>
  The platform functions the codec calls are parameters: \<open>JSON.parse\<close> (\<open>None\<close> is the
  \<open>SyntaxError\<close> it throws), \<open>JSON.stringify\<close> (\<open>None\<close> is a thrown error), the \<open>URL\<close>
  constructor, and the source of fresh identifiers (\<open>crypto.randomUUID\<close> or the
  \<open>Math.random\<close> fallback): \<open>randomUUID p k\<close> is the identifier of the \<open>k\<close>-th call, and
  the functions that generate identifiers take the count of calls so far and return
  the new count.
\<close>

record platform =
  URL_ctor :: "string \<Rightarrow> url option"
  JSON_parse :: "string \<Rightarrow> json option"
  JSON_stringify :: "json \<Rightarrow> string option"
  randomUUID :: "nat \<Rightarrow> string"

definition generateSegmentId :: "platform \<Rightarrow> nat \<Rightarrow> string \<times> nat" where
  "generateSegmentId p k = (randomUUID p k, Suc k)"

definition sanitizeTimestamp :: "json option \<Rightarrow> exn + number option" where
  "sanitizeTimestamp v =
     (case (case v of Some (JNum n) \<Rightarrow> Inr n | _ \<Rightarrow> ToNumber v) of
        Inl e \<Rightarrow> Inl e
      | Inr numeric \<Rightarrow>
          if \<not> isFinite numeric then Inr None
          else Inr (Some (Math_max (Fin 0) (toFixed2 numeric))))"

text \<open>The template \<open>`Loop ${index + 1}`\<close>.\<close>

definition loop_label :: "nat \<Rightarrow> string" where
  "loop_label n = ''Loop '' @ toString_int (int n)"

text \<open>The callback of \<open>parsed.map\<close>: \<open>None\<close> is \<open>null\<close>.\<close>

definition segment_of_entry :: "platform \<Rightarrow> nat \<Rightarrow> json \<Rightarrow> nat \<Rightarrow> exn + (LoopSegment option \<times> nat)" where
  "segment_of_entry p k entry index =
     (if \<not> is_object entry then Inr (None, k)
      else
        (let label = (case get_prop entry ''label'' of
                        Some (JStr s) \<Rightarrow> s
                      | _ \<Rightarrow> loop_label (index + 1))
         in case sanitizeTimestamp (get_prop entry ''start'') of
              Inl e \<Rightarrow> Inl e
            | Inr start \<Rightarrow>
                (case sanitizeTimestamp (get_prop entry ''end'') of
                   Inl e \<Rightarrow> Inl e
                 | Inr end' \<Rightarrow>
                     (case (start, end') of
                        (Some s, Some e) \<Rightarrow>
                          (let (new_id, k') = generateSegmentId p k
                           in Inr (Some \<lparr>seg_id = new_id,
                                          seg_label = (if trim label = [] then loop_label (index + 1)
                                                       else trim label),
                                          seg_start = Math_min s e,
                                          seg_end = Math_max s e\<rparr>, k'))
                      | _ \<Rightarrow> Inr (None, k)))))"

text \<open>\<open>parsed.map(callback)\<close>, from the entry at \<open>index\<close> on; it stops at a thrown error.\<close>

fun map_entries :: "platform \<Rightarrow> nat \<Rightarrow> json list \<Rightarrow> nat \<Rightarrow> exn + (LoopSegment option list \<times> nat)" where
  "map_entries p k [] index = Inr ([], k)"
| "map_entries p k (entry # entries) index =
     (case segment_of_entry p k entry index of
        Inl e \<Rightarrow> Inl e
      | Inr (seg, k') \<Rightarrow>
          (case map_entries p k' entries (index + 1) of
             Inl e \<Rightarrow> Inl e
           | Inr (segs, k'') \<Rightarrow> Inr (seg # segs, k'')))"

text \<open>
  \<open>Array.prototype.sort\<close> with a comparator. The sort of the platform is stable, and for
  a comparator that orders the elements consistently it is the stable sort by that
  order: modelled by insertion, where an element goes before the first one it does not
  come after. A comparator result \<open>NaN\<close> counts as 0, as the platform reads it.
\<close>

definition not_after :: "number \<Rightarrow> bool" where
  "not_after v = (\<not> num_gt v (Fin 0))"

fun insort_cmp :: "('a \<Rightarrow> 'a \<Rightarrow> number) \<Rightarrow> 'a \<Rightarrow> 'a list \<Rightarrow> 'a list" where
  "insort_cmp cmp x [] = [x]"
| "insort_cmp cmp x (y # ys) =
     (if not_after (cmp x y) then x # y # ys else y # insort_cmp cmp x ys)"

definition Array_sort :: "('a \<Rightarrow> 'a \<Rightarrow> number) \<Rightarrow> 'a list \<Rightarrow> 'a list" where
  "Array_sort cmp xs = foldr (insort_cmp cmp) xs []"

text \<open>The comparator \<open>(a, b) => a.start - b.start\<close>.\<close>

definition by_start :: "LoopSegment \<Rightarrow> LoopSegment \<Rightarrow> number" where
  "by_start a b = num_sub (seg_start a) (seg_start b)"

text \<open>
  The body of the \<open>try\<close> block of \<open>parseSegmentsParam\<close>, and the function itself: the
  result is \<open>Inl\<close> an exception when one leaves the function, and the second component
  is the count of identifiers generated.
\<close>

definition parseSegmentsParam_try :: "platform \<Rightarrow> nat \<Rightarrow> string \<Rightarrow> exn + (LoopSegment list \<times> nat)" where
  "parseSegmentsParam_try p k text =
     (case JSON_parse p text of
        None \<Rightarrow> Inl SyntaxError
      | Some parsed \<Rightarrow>
          (case parsed of
             JArr entries \<Rightarrow>
               (case map_entries p k entries 0 of
                  Inl e \<Rightarrow> Inl e
                | Inr (segs, k') \<Rightarrow>
                    Inr (Array_sort by_start (List.map_filter (\<lambda>s. s) segs), k'))
           | _ \<Rightarrow> Inr ([], k)))"

definition parseSegmentsParam :: "platform \<Rightarrow> nat \<Rightarrow> string option \<Rightarrow> exn + (LoopSegment list \<times> nat)" where
  "parseSegmentsParam p k v =
     (case v of
        None \<Rightarrow> Inr ([], k)
      | Some text \<Rightarrow>
          if text = [] then Inr ([], k)
          else (case parseSegmentsParam_try p k text of
                  Inl error \<Rightarrow> Inr ([], k)
                | Inr r \<Rightarrow> Inr r))"

definition payload :: "LoopSegment list \<Rightarrow> json" where
  "payload segments =
     JArr (map (\<lambda>segment. JObj [(''label'', JStr (seg_label segment)),
                                 (''start'', JNum (toFixed2 (seg_start segment))),
                                 (''end'', JNum (toFixed2 (seg_end segment)))]) segments)"

definition serializeSegments :: "platform \<Rightarrow> LoopSegment list \<Rightarrow> string option" where
  "serializeSegments p segments =
     (if length segments = 0 then None
      else (case JSON_stringify p (payload segments) of
              Some text \<Rightarrow> Some text
            | None \<Rightarrow> None))"

definition SEGMENTS_PARAM :: string where
  "SEGMENTS_PARAM = ''segments''"

definition buildVideoLink :: "platform \<Rightarrow> string \<Rightarrow> LoopSegment list \<Rightarrow> string" where
  "buildVideoLink p videoId segments =
     (let searchParams0 = [(''v'', videoId)];
          serialized = serializeSegments p segments;
          searchParams1 = (case serialized of
                             Some (c # cs) \<Rightarrow> searchParams_set searchParams0 SEGMENTS_PARAM (c # cs)
                           | _ \<Rightarrow> searchParams0)
      in ''https://www.youtube.com/watch?'' @ URLSearchParams_toString searchParams1)"

definition extractSegmentsFromInput :: "platform \<Rightarrow> nat \<Rightarrow> string \<Rightarrow> exn + (LoopSegment list \<times> nat)" where
  "extractSegmentsFromInput p k v =
     (case URL_ctor p v of
        None \<Rightarrow> Inr ([], k)
      | Some u \<Rightarrow>
          (case parseSegmentsParam p k (searchParams_get u SEGMENTS_PARAM) of
             Inl e \<Rightarrow> Inr ([], k)
           | Inr r \<Rightarrow> Inr r))"

section \<open>The extractor validates what it returns\<close>

lemma normalizeYouTubeId_pattern:
  "normalizeYouTubeId v = Some r \<Longrightarrow> YOUTUBE_ID_PATTERN r"
  by (auto simp: normalizeYouTubeId_def Let_def split: option.splits if_splits)

text \<open>
  The second version of \<open>extractYouTubeId\<close> returns nothing but identifiers of the
  pattern, whatever the \<open>URL\<close> constructor makes of the text.
\<close>

lemma extractYouTubeId_validated:
  "extractYouTubeId URL_new input = Some r \<Longrightarrow> YOUTUBE_ID_PATTERN r"
  unfolding extractYouTubeId_def Let_def
  by (auto split: option.splits if_splits dest: normalizeYouTubeId_pattern)

lemma extractYouTubeId_validated_witness:
  "extractYouTubeId URL_parse ''https://youtu.be/dQw4w9WgXcQ'' = Some ''dQw4w9WgXcQ'' \<and>
   YOUTUBE_ID_PATTERN ''dQw4w9WgXcQ''"
proof -
  have "extractYouTubeId URL_parse ''https://youtu.be/dQw4w9WgXcQ'' = Some ''dQw4w9WgXcQ''"
    by code_simp
  with extractYouTubeId_validated [of URL_parse "''https://youtu.be/dQw4w9WgXcQ''" "''dQw4w9WgXcQ''"]
  show ?thesis by simp
qed

text \<open>
  Claim C2. Every candidate taken from a parsed URL is returned only if it matches the
  pattern of 11 characters from \<open>[A-Za-z0-9_-]\<close>. The first version of
  \<open>extractYouTubeId\<close> has no closing validation: for \<open>https://youtu.be/abc\<close>, which is
  not a bare identifier, it returns the path segment \<open>abc\<close>, where the second version
  returns nothing.
\<close>

theorem extractYouTubeId_v1_unvalidated:
  "\<not> YOUTUBE_ID_PATTERN (trim ''https://youtu.be/abc'') \<and>
   extractYouTubeId_v1 URL_parse ''https://youtu.be/abc'' = Some ''abc'' \<and>
   \<not> YOUTUBE_ID_PATTERN ''abc'' \<and>
   extractYouTubeId URL_parse ''https://youtu.be/abc'' = None"
  by code_simp

section \<open>The link builder and the extractor\<close>

text \<open>The printable ASCII characters other than the space.\<close>

definition plain :: "char \<Rightarrow> bool" where
  "plain c = (33 \<le> (of_char c :: nat) \<and> (of_char c :: nat) \<le> 126)"

lemma match_len_no_head:
  "list_all (\<lambda>w. w \<noteq> [] \<and> hd w \<noteq> c) ws \<Longrightarrow> match_len ws (c # s) = 0"
proof (induction ws)
  case Nil
  then show ?case by (simp add: match_len_def)
next
  case (Cons w ws)
  then obtain a v where w: "w = a # v" and ne: "a \<noteq> c" by (cases w) auto
  with Cons show ?case by (simp add: match_len_def)
qed

lemma white_space_heads:
  "list_all (\<lambda>w. w \<noteq> [] \<and> \<not> plain (hd w)) white_space"
  by (simp add: white_space_def plain_def)

lemma white_space_lasts:
  "list_all (\<lambda>w. w \<noteq> [] \<and> \<not> plain (hd w)) (map rev white_space)"
  by (simp add: white_space_def plain_def)

lemma list_all_mono': "list_all P xs \<Longrightarrow> (\<And>x. P x \<Longrightarrow> Q x) \<Longrightarrow> list_all Q xs"
  by (induction xs) auto

lemma strip_plain:
  assumes "list_all (\<lambda>w. w \<noteq> [] \<and> \<not> plain (hd w)) ws" "plain c"
  shows "strip ws (c # s) = c # s"
proof -
  have "list_all (\<lambda>w. w \<noteq> [] \<and> hd w \<noteq> c) ws"
    using assms(1) by (rule list_all_mono') (use assms(2) in auto)
  then have "match_len ws (c # s) = 0" by (rule match_len_no_head)
  then show ?thesis by (simp add: strip.simps)
qed

lemma trim_plain:
  assumes "s \<noteq> []" "plain (hd s)" "plain (last s)"
  shows "trim s = s"
proof -
  from assms obtain c r where s: "s = c # r" by (cases s) auto
  with assms have 1: "strip white_space s = s"
    by (simp add: strip_plain white_space_heads)
  from assms(1) obtain d q where rs: "rev s = d # q"
    by (cases "rev s") auto
  then have "d = last s"
    by (metis hd_rev list.sel(1))
  with assms(3) have "plain d" by simp
  with white_space_lasts have "strip (map rev white_space) (d # q) = d # q"
    by (rule strip_plain)
  then have "strip (map rev white_space) (rev s) = rev s"
    unfolding rs .
  with 1 show ?thesis by (simp add: trim_def)
qed

lemma form_encode_byte_plain: "list_all plain (form_encode_byte c)"
proof -
  have "plain (hex_digit n)" for n
  proof -
    have "hex_digit n \<in> set ''0123456789ABCDEF''"
      unfolding hex_digit_def by (rule nth_mem) simp
    moreover have "list_all plain ''0123456789ABCDEF''"
      by (simp add: plain_def)
    ultimately show ?thesis
      unfolding list_all_iff by blast
  qed
  then show ?thesis
    by (auto simp: form_encode_byte_def form_safe_def plain_def is_alpha_def is_digit_def Let_def)
qed

lemma form_encode_plain: "list_all plain (form_encode s)"
  by (induction s) (simp_all add: form_encode_def form_encode_byte_plain)

lemma form_encode_byte_ne: "form_encode_byte c \<noteq> []"
  by (simp add: form_encode_byte_def)

lemma form_encode_ne: "s \<noteq> [] \<Longrightarrow> form_encode s \<noteq> []"
  by (cases s) (simp_all add: form_encode_def form_encode_byte_ne)

lemma form_encode_id: "list_all id_char s \<Longrightarrow> form_encode s = s"
  by (induction s) (auto simp: form_encode_def form_encode_byte_def form_safe_def id_char_def)

lemma split_on_notin: "c \<notin> set a \<Longrightarrow> split_on c a = [a]"
  by (induction a) auto

lemma split_on_first: "c \<notin> set a \<Longrightarrow> split_on c (a @ c # r) = a # split_on c r"
  by (induction a) auto

lemma percent_decode_id: "CHR ''%'' \<notin> set s \<Longrightarrow> percent_decode s = s"
  by (induction s rule: percent_decode.induct) auto

lemma form_decode_id: "list_all id_char s \<Longrightarrow> form_decode s = s"
proof -
  assume a: "list_all id_char s"
  then have "CHR ''+'' \<notin> set s" "CHR ''%'' \<notin> set s"
    by (auto simp: list_all_iff id_char_def is_alpha_def is_digit_def Let_def)
  moreover from this have "map (\<lambda>c. if c = CHR ''+'' then CHR '' '' else c) s = s"
    by (induction s) auto
  ultimately show ?thesis
    by (simp add: form_decode_def percent_decode_id)
qed

lemma id_char_plain: "id_char c \<Longrightarrow> plain c"
  by (auto simp: id_char_def plain_def is_alpha_def is_digit_def Let_def)

lemma form_encode_names:
  "form_encode ''v'' = ''v''" "form_encode ''segments'' = ''segments''"
  by (simp_all add: form_encode_def form_encode_byte_def form_safe_def is_alpha_def)

lemma buildVideoLink_shape:
  assumes "list_all id_char vid"
  shows "\<exists>tail. buildVideoLink p vid L = ''https://www.youtube.com/watch?v='' @ vid @ tail \<and>
           (tail = [] \<or> (\<exists>r. tail = CHR ''&'' # r \<and> r \<noteq> [] \<and> list_all plain r))"
proof -
  have short: "URLSearchParams_toString [(''v'', vid)] = ''v='' @ vid"
    using assms by (simp add: URLSearchParams_toString_def form_encode_id form_encode_names)
  show ?thesis
  proof (cases "serializeSegments p L")
    case None
    then show ?thesis
      by (simp add: buildVideoLink_def short)
  next
    case (Some s)
    show ?thesis
    proof (cases s)
      case Nil
      with Some show ?thesis
        by (simp add: buildVideoLink_def short)
    next
      case (Cons c cs)
      have "searchParams_set [(''v'', vid)] SEGMENTS_PARAM (c # cs) =
          [(''v'', vid), (''segments'', c # cs)]"
        by (simp add: searchParams_set_def SEGMENTS_PARAM_def)
      then have "buildVideoLink p vid L =
          ''https://www.youtube.com/watch?v='' @ vid @ CHR ''&'' # (''segments='' @ form_encode (c # cs))"
        using Some Cons assms
        by (simp add: buildVideoLink_def URLSearchParams_toString_def form_encode_id form_encode_names)
      moreover have "list_all plain (''segments='' @ form_encode (c # cs))"
        using form_encode_plain [of "c # cs"] by (simp add: plain_def)
      ultimately show ?thesis by blast
    qed
  qed
qed

lemma takeWhile_app_notin:
  "\<forall>x\<in>set a. P x \<Longrightarrow> takeWhile P (a @ b) = a @ takeWhile P b"
  by (induction a) auto

lemma plain_ends_untouched:
  assumes "list_all plain s" "s \<noteq> []"
  shows "filter (\<lambda>c. \<not> is_tab_or_newline c)
           (rev (dropWhile is_c0_or_space (rev (dropWhile is_c0_or_space s)))) = s"
proof -
  have plain_not: "\<not> is_c0_or_space c" "\<not> is_tab_or_newline c" if "plain c" for c
    using that by (auto simp: plain_def is_c0_or_space_def is_tab_or_newline_def)
  have "hd s \<in> set s" "last s \<in> set s" using assms(2) by simp_all
  with assms(1) have "plain (hd s)" "plain (last s)" by (simp_all add: list_all_iff)
  then have "\<not> is_c0_or_space (hd s)" "\<not> is_c0_or_space (hd (rev s))"
    using assms(2) by (simp_all add: plain_not hd_rev)
  then have "dropWhile is_c0_or_space s = s" "dropWhile is_c0_or_space (rev s) = rev s"
    by (simp_all add: dropWhile_eq_self_iff)
  moreover have "filter (\<lambda>c. \<not> is_tab_or_newline c) s = s"
    using assms(1) plain_not(2) by (simp add: list_all_iff)
  ultimately show ?thesis by simp
qed

lemma parse_query_v:
  assumes vid: "list_all id_char vid"
    and tail: "tail = [] \<or> (\<exists>r. tail = CHR ''&'' # r)"
  shows "\<exists>more. parse_query (''v='' @ vid @ tail) = (''v'', vid) # more"
proof -
  have no_amp: "CHR ''&'' \<notin> set (''v='' @ vid)" and no_eq: "CHR ''='' \<notin> set vid"
    using vid by (auto simp: list_all_iff id_char_def is_alpha_def is_digit_def Let_def)
  have "\<exists>rest. split_on CHR ''&'' ((''v='' @ vid) @ tail) = (''v='' @ vid) # rest"
    using tail
  proof
    assume "tail = []"
    then show ?thesis using split_on_notin [OF no_amp] by simp
  next
    assume "\<exists>r. tail = CHR ''&'' # r"
    then obtain r where "tail = CHR ''&'' # r" by blast
    then show ?thesis using split_on_first [OF no_amp, of r] by simp
  qed
  then obtain rest where rest: "split_on CHR ''&'' (''v='' @ vid @ tail) = (''v='' @ vid) # rest"
    by auto
  have fd: "form_decode ''v'' = ''v''"
    by (simp add: form_decode_def)
  show ?thesis
    unfolding parse_query_def rest using vid by (simp add: fd form_decode_id)
qed

lemma URL_parse_watch_link:
  assumes vid: "list_all id_char vid"
    and tail: "tail = [] \<or> (\<exists>r. tail = CHR ''&'' # r \<and> r \<noteq> [] \<and> list_all plain r)"
  shows "\<exists>u. URL_parse (''https://www.youtube.com/watch?v='' @ vid @ tail) = Some u \<and>
           hostname u = ''www.youtube.com'' \<and> searchParams_get u ''v'' = Some vid"
proof -
  define rest where "rest = ''v='' @ vid @ tail"
  have pv: "list_all plain vid"
    using vid by (rule list_all_mono') (rule id_char_plain)
  have pt: "list_all plain tail"
    using tail by (auto simp: plain_def)
  have pr: "list_all plain rest"
    using pv pt by (simp add: rest_def plain_def)
  have "list_all plain (''https://www.youtube.com/watch?'' @ rest)"
    using pr by (simp add: plain_def)
  then have clean: "filter (\<lambda>c. \<not> is_tab_or_newline c)
           (rev (dropWhile is_c0_or_space (rev (dropWhile is_c0_or_space
              (''https://www.youtube.com/watch?'' @ rest))))) = ''https://www.youtube.com/watch?'' @ rest"
    by (rule plain_ends_untouched) simp
  have step1: "URL_parse (''https://www.youtube.com/watch?'' @ rest) =
      URL_after_scheme (''www.youtube.com/watch?'' @ rest)"
    unfolding URL_parse_def Let_def clean by simp
  have no_hash: "\<forall>x\<in>set (''v='' @ vid). x \<noteq> CHR ''#''"
    using vid by (auto simp: list_all_iff id_char_def is_alpha_def is_digit_def Let_def)
  define tail' where "tail' = takeWhile (\<lambda>c. c \<noteq> CHR ''#'') tail"
  have "takeWhile (\<lambda>c. c \<noteq> CHR ''#'') ((''v='' @ vid) @ tail) = (''v='' @ vid) @ tail'"
    unfolding tail'_def using no_hash by (rule takeWhile_app_notin)
  then have query: "takeWhile (\<lambda>c. c \<noteq> CHR ''#'') rest = ''v='' @ vid @ tail'"
    by (simp add: rest_def)
  have "tail' = [] \<or> (\<exists>r. tail' = CHR ''&'' # r)"
    using tail by (auto simp: tail'_def)
  with vid have "\<exists>more. parse_query (''v='' @ vid @ tail') = (''v'', vid) # more"
    by (rule parse_query_v)
  then obtain more where more: "parse_query (takeWhile (\<lambda>c. c \<noteq> CHR ''#'') rest) = (''v'', vid) # more"
    unfolding query by blast
  have "URL_after_scheme (''www.youtube.com/watch?'' @ rest) =
        Some \<lparr>hostname = ''www.youtube.com'', pathname = ''/watch'',
              searchParams = (''v'', vid) # more\<rparr>"
    unfolding URL_after_scheme_def Let_def
    by (simp add: more url_delim_def url_host_char_def url_path_char_def id_char_def is_alpha_def is_digit_def)
  with step1 show ?thesis
    by (simp add: searchParams_get_def rest_def)
qed

lemma normalizeYouTubeId_valid:
  assumes "YOUTUBE_ID_PATTERN vid"
  shows "normalizeYouTubeId (Some vid) = Some vid"
proof -
  from assms have len: "length vid = 11" and chars: "list_all id_char vid"
    by (simp_all add: YOUTUBE_ID_PATTERN_def)
  from len have ne: "vid \<noteq> []" by auto
  then have "hd vid \<in> set vid" "last vid \<in> set vid" by simp_all
  with chars have "plain (hd vid)" "plain (last vid)"
    by (simp_all add: list_all_iff id_char_plain)
  with ne have "trim vid = vid" by (rule trim_plain)
  with assms ne show ?thesis by (simp add: normalizeYouTubeId_def)
qed

text \<open>
  Claim C9. For every identifier of the pattern and every segment list, both versions
  of \<open>extractYouTubeId\<close> return the identifier from the link \<open>buildVideoLink\<close> builds
  (whatever \<open>JSON.stringify\<close> prints for the segments).
\<close>

theorem link_round_trip:
  assumes "YOUTUBE_ID_PATTERN vid"
  shows "extractYouTubeId URL_parse (buildVideoLink p vid L) = Some vid \<and>
         extractYouTubeId_v1 URL_parse (buildVideoLink p vid L) = Some vid"
proof -
  from assms have len: "length vid = 11" and chars: "list_all id_char vid"
    by (simp_all add: YOUTUBE_ID_PATTERN_def)
  from len have ne: "vid \<noteq> []" by auto
  define link where "link = buildVideoLink p vid L"
  from buildVideoLink_shape [OF chars] obtain tail where
    link: "link = ''https://www.youtube.com/watch?v='' @ vid @ tail" and
    tail: "tail = [] \<or> (\<exists>r. tail = CHR ''&'' # r \<and> r \<noteq> [] \<and> list_all plain r)"
    unfolding link_def by blast
  have pv: "list_all plain vid"
    using chars by (rule list_all_mono') (rule id_char_plain)
  have pt: "list_all plain tail"
    using tail by (auto simp: plain_def)
  have pl: "list_all plain link"
    using pv pt by (simp add: link plain_def)
  have lne: "link \<noteq> []" by (simp add: link)
  then have "hd link \<in> set link" "last link \<in> set link" by simp_all
  with pl have "plain (hd link)" "plain (last link)" by (simp_all add: list_all_iff)
  with lne have trim: "trim link = link" by (rule trim_plain)
  have not_id: "\<not> YOUTUBE_ID_PATTERN link"
    by (simp add: YOUTUBE_ID_PATTERN_def link)
  from URL_parse_watch_link [OF chars tail] obtain u where
    u: "URL_parse link = Some u" "hostname u = ''www.youtube.com''"
       "searchParams_get u ''v'' = Some vid"
    unfolding link by blast
  have host: "strip_www (hostname u) = ''youtube.com''"
    by (simp add: u(2) strip_www_def)
  have norm_link: "normalizeYouTubeId (Some link) = None"
    using trim not_id by (simp add: normalizeYouTubeId_def)
  have "extractYouTubeId URL_parse link = Some vid"
    unfolding extractYouTubeId_def Let_def trim norm_link
    using lne by (simp add: u(1) u(3) host normalizeYouTubeId_valid [OF assms])
  moreover have "extractYouTubeId_v1 URL_parse link = Some vid"
    unfolding extractYouTubeId_v1_def Let_def trim
    using lne not_id ne by (simp add: u(1) u(3) host split: list.splits)
  ultimately show ?thesis unfolding link_def by simp
qed

theorem link_round_trip_witness:
  "YOUTUBE_ID_PATTERN ''dQw4w9WgXcQ'' \<and>
   extractYouTubeId URL_parse
     (buildVideoLink \<lparr>URL_ctor = URL_parse, JSON_parse = (\<lambda>t. None),
        JSON_stringify = (\<lambda>j. Some ''[{}]''), randomUUID = (\<lambda>k. ''id'')\<rparr>
        ''dQw4w9WgXcQ''
        [\<lparr>seg_id = ''a'', seg_label = ''Intro'', seg_start = Fin 1, seg_end = Fin 2\<rparr>])
     = Some ''dQw4w9WgXcQ''"
proof -
  have v: "YOUTUBE_ID_PATTERN ''dQw4w9WgXcQ''"
    by (simp add: YOUTUBE_ID_PATTERN_def id_char_def is_alpha_def is_digit_def)
  from link_round_trip [OF v] v show ?thesis by blast
qed

section \<open>A model of the platform's JSON functions\<close>

text \<open>
  The theorems about the codec hold for every \<open>JSON.parse\<close> and \<open>JSON.stringify\<close> with
  the property they name. The model here is the instance they are evaluated on: a JSON
  printer and a recursive-descent JSON parser over the bytes of the text.

  \<open>Number_toString\<close> prints a finite number the way \<open>JSON.stringify\<close> does when it is
  an integer or has at most 20 decimals and is 0 or at least \<open>10^-6\<close> in size (smaller
  numbers print with an exponent on the platform): the source prints numbers rounded to
  two decimals only.
\<close>

fun frac_digits :: "nat \<Rightarrow> rat \<Rightarrow> string" where
  "frac_digits 0 f = []"
| "frac_digits (Suc k) f =
     (if f = 0 then []
      else (let d = \<lfloor>f * 10\<rfloor> in digit_char d # frac_digits k (f * 10 - of_int d)))"

definition Number_toString :: "rat \<Rightarrow> string" where
  "Number_toString x =
     (let a = \<bar>x\<bar>; n = \<lfloor>a\<rfloor>
      in (if x < 0 then ''-'' else []) @ toString_nonneg n
         @ (if a = of_int n \<or> 10 ^ 21 \<le> n then [] else ''.'' @ frac_digits 20 (a - of_int n)))"

definition lower_hex :: "nat \<Rightarrow> char" where
  "lower_hex n = ''0123456789abcdef'' ! (n mod 16)"

definition json_escape :: "char \<Rightarrow> string" where
  "json_escape c =
     (if c = CHR 0x22 then [CHR 0x5C, CHR 0x22]
      else if c = CHR 0x5C then [CHR 0x5C, CHR 0x5C]
      else if c = CHR 0x08 then [CHR 0x5C, CHR ''b'']
      else if c = CHR 0x0C then [CHR 0x5C, CHR ''f'']
      else if c = CHR 0x0A then [CHR 0x5C, CHR ''n'']
      else if c = CHR 0x0D then [CHR 0x5C, CHR ''r'']
      else if c = CHR 0x09 then [CHR 0x5C, CHR ''t'']
      else if (of_char c :: nat) < 32
        then [CHR 0x5C, CHR ''u'', CHR ''0'', CHR ''0'',
              lower_hex (of_char c div 16), lower_hex (of_char c mod 16)]
      else [c])"

definition json_quote :: "string \<Rightarrow> string" where
  "json_quote s = CHR 0x22 # concat (map json_escape s) @ [CHR 0x22]"

fun JSON_stringify_model :: "json \<Rightarrow> string" where
  "JSON_stringify_model JNull = ''null''"
| "JSON_stringify_model (JBool b) = (if b then ''true'' else ''false'')"
| "JSON_stringify_model (JNum n) = (case n of Fin x \<Rightarrow> Number_toString x | _ \<Rightarrow> ''null'')"
| "JSON_stringify_model (JStr s) = json_quote s"
| "JSON_stringify_model (JArr xs) = ''['' @ join_with '','' (map JSON_stringify_model xs) @ '']''"
| "JSON_stringify_model (JObj kvs) =
     ''{'' @ join_with '',''
              (map (\<lambda>kv. json_quote (fst kv) @ '':'' @ JSON_stringify_model (snd kv)) kvs) @ ''}''"

text \<open>The UTF-8 bytes of a code point (a lone surrogate is encoded like any other).\<close>

definition utf8_encode :: "nat \<Rightarrow> string" where
  "utf8_encode cp =
     (if cp < 0x80 then [char_of cp]
      else if cp < 0x800 then [char_of (0xC0 + cp div 64), char_of (0x80 + cp mod 64)]
      else if cp < 0x10000 then
        [char_of (0xE0 + cp div 4096), char_of (0x80 + cp div 64 mod 64), char_of (0x80 + cp mod 64)]
      else [char_of (0xF0 + cp div 262144), char_of (0x80 + cp div 4096 mod 64),
            char_of (0x80 + cp div 64 mod 64), char_of (0x80 + cp mod 64)])"

definition hex4 :: "char \<Rightarrow> char \<Rightarrow> char \<Rightarrow> char \<Rightarrow> nat option" where
  "hex4 a b c d =
     (case (hex_val a, hex_val b, hex_val c, hex_val d) of
        (Some w, Some x, Some y, Some z) \<Rightarrow> Some (4096 * w + 256 * x + 16 * y + z)
      | _ \<Rightarrow> None)"

definition simple_escape :: "char \<Rightarrow> char option" where
  "simple_escape e =
     (if e = CHR 0x22 \<or> e = CHR 0x5C \<or> e = CHR ''/'' then Some e
      else if e = CHR ''b'' then Some (CHR 0x08)
      else if e = CHR ''f'' then Some (CHR 0x0C)
      else if e = CHR ''n'' then Some (CHR 0x0A)
      else if e = CHR ''r'' then Some (CHR 0x0D)
      else if e = CHR ''t'' then Some (CHR 0x09)
      else None)"

definition pending_bytes :: "nat option \<Rightarrow> string" where
  "pending_bytes hi = (case hi of None \<Rightarrow> [] | Some h \<Rightarrow> utf8_encode h)"

text \<open>
  The characters of a string literal after its opening quote, up to the closing one;
  \<open>hi\<close> is a high surrogate read from a \<open>\u\<close> escape just before, waiting for its low
  surrogate. The result is the string and the text after the literal.
\<close>

fun parse_string_body :: "nat option \<Rightarrow> string \<Rightarrow> (string \<times> string) option" where
  "parse_string_body hi [] = None"
| "parse_string_body hi (c # r) =
     (if c = CHR 0x22 then Some (pending_bytes hi, r)
      else if c = CHR 0x5C then
        (case r of
           [] \<Rightarrow> None
         | e # r1 \<Rightarrow>
             (if e = CHR ''u'' then
                (case r1 of
                   h1 # h2 # h3 # h4 # r2 \<Rightarrow>
                     (case hex4 h1 h2 h3 h4 of
                        None \<Rightarrow> None
                      | Some u \<Rightarrow>
                          (if 0xDC00 \<le> u \<and> u < 0xE000 \<and> hi \<noteq> None then
                             map_option
                               (apfst ((@) (utf8_encode
                                  (0x10000 + (the hi - 0xD800) * 1024 + (u - 0xDC00)))))
                               (parse_string_body None r2)
                           else if 0xD800 \<le> u \<and> u < 0xDC00 then
                             map_option (apfst ((@) (pending_bytes hi)))
                               (parse_string_body (Some u) r2)
                           else
                             map_option (apfst ((@) (pending_bytes hi @ utf8_encode u)))
                               (parse_string_body None r2)))
                 | _ \<Rightarrow> None)
              else
                (case simple_escape e of
                   None \<Rightarrow> None
                 | Some d \<Rightarrow>
                     map_option (apfst ((@) (pending_bytes hi @ [d])))
                       (parse_string_body None r1))))
      else if (of_char c :: nat) < 32 then None
      else map_option (apfst ((@) (pending_bytes hi @ [c]))) (parse_string_body None r))"

text \<open>A JSON number at the start of the text: its value and the text after it.\<close>

definition json_number :: "string \<Rightarrow> (rat \<times> string) option" where
  "json_number s =
     (let neg = (take 1 s = ''-'');
          u = (if neg then drop 1 s else s);
          ip = takeWhile is_digit u;
          r1 = dropWhile is_digit u;
          dot = (take 1 r1 = ''.'');
          fp = (if dot then takeWhile is_digit (drop 1 r1) else []);
          r2 = (if dot then dropWhile is_digit (drop 1 r1) else r1);
          ex = (take 1 r2 = ''e'' \<or> take 1 r2 = ''E'');
          r3 = drop 1 r2;
          eneg = (take 1 r3 = ''-'');
          r4 = (if take 1 r3 = ''-'' \<or> take 1 r3 = ''+'' then drop 1 r3 else r3);
          ds = takeWhile is_digit r4
      in if ip = [] \<or> (1 < length ip \<and> hd ip = CHR ''0'') \<or> (dot \<and> fp = []) \<or> (ex \<and> ds = [])
         then None
         else (let m = of_int (digits_val ip) + of_int (digits_val fp) / 10 ^ length fp;
                   v = (if ex then scale10 m (if eneg then - digits_val ds else digits_val ds)
                        else m)
               in Some (if neg then - v else v, if ex then dropWhile is_digit r4 else r2)))"

definition json_ws :: "char \<Rightarrow> bool" where
  "json_ws c = (c = CHR 0x20 \<or> c = CHR 0x09 \<or> c = CHR 0x0A \<or> c = CHR 0x0D)"

text \<open>
  The parser of a value, of the elements of an array after \<open>[\<close>, and of the members of an
  object after \<open>{\<close>. The first argument bounds the number of nested calls; every call
  reads at least one character, so a bound above the length of the text is never reached.
\<close>

fun parse_value :: "nat \<Rightarrow> string \<Rightarrow> (json \<times> string) option"
  and parse_elements :: "nat \<Rightarrow> string \<Rightarrow> (json list \<times> string) option"
  and parse_members :: "nat \<Rightarrow> string \<Rightarrow> ((string \<times> json) list \<times> string) option" where
  "parse_value 0 s = None"
| "parse_value (Suc n) s =
     (case dropWhile json_ws s of
        [] \<Rightarrow> None
      | c # r \<Rightarrow>
          if c = CHR ''['' then
            (if take 1 (dropWhile json_ws r) = '']'' then Some (JArr [], drop 1 (dropWhile json_ws r))
             else map_option (apfst JArr) (parse_elements n r))
          else if c = CHR ''{'' then
            (if take 1 (dropWhile json_ws r) = ''}'' then Some (JObj [], drop 1 (dropWhile json_ws r))
             else map_option (apfst JObj) (parse_members n r))
          else if c = CHR 0x22 then map_option (apfst JStr) (parse_string_body None r)
          else if take 4 (c # r) = ''null'' then Some (JNull, drop 3 r)
          else if take 4 (c # r) = ''true'' then Some (JBool True, drop 3 r)
          else if take 5 (c # r) = ''false'' then Some (JBool False, drop 4 r)
          else map_option (apfst (\<lambda>x. JNum (Fin x))) (json_number (c # r)))"
| "parse_elements 0 s = None"
| "parse_elements (Suc n) s =
     (case parse_value n s of
        None \<Rightarrow> None
      | Some (v, r) \<Rightarrow>
          (case dropWhile json_ws r of
             [] \<Rightarrow> None
           | c # r1 \<Rightarrow>
               if c = CHR '','' then map_option (apfst ((#) v)) (parse_elements n r1)
               else if c = CHR '']'' then Some ([v], r1)
               else None))"
| "parse_members 0 s = None"
| "parse_members (Suc n) s =
     (case dropWhile json_ws s of
        [] \<Rightarrow> None
      | q # r \<Rightarrow>
          if q \<noteq> CHR 0x22 then None
          else
            (case parse_string_body None r of
               None \<Rightarrow> None
             | Some (k, r1) \<Rightarrow>
                 (case dropWhile json_ws r1 of
                    [] \<Rightarrow> None
                  | c # r2 \<Rightarrow>
                      if c \<noteq> CHR '':'' then None
                      else
                        (case parse_value n r2 of
                           None \<Rightarrow> None
                         | Some (v, r3) \<Rightarrow>
                             (case dropWhile json_ws r3 of
                                [] \<Rightarrow> None
                              | d # r4 \<Rightarrow>
                                  if d = CHR '','' then
                                    map_option (apfst ((#) (k, v))) (parse_members n r4)
                                  else if d = CHR ''}'' then Some ([(k, v)], r4)
                                  else None)))))"

definition JSON_parse_model :: "string \<Rightarrow> json option" where
  "JSON_parse_model text =
     (case parse_value (2 * length text + 2) text of
        None \<Rightarrow> None
      | Some (v, r) \<Rightarrow> if dropWhile json_ws r = [] then Some v else None)"

text \<open>The instance of the platform: the \<open>k\<close>-th fresh identifier is \<open>seg-k\<close>.\<close>

definition js :: platform where
  "js = \<lparr>URL_ctor = URL_parse,
         JSON_parse = JSON_parse_model,
         JSON_stringify = (\<lambda>j. Some (JSON_stringify_model j)),
         randomUUID = (\<lambda>k. ''seg-'' @ digits_of (int k))\<rparr>"

section \<open>Decoding never throws\<close>

text \<open>
  Claim C6. \<open>parseSegmentsParam\<close> never throws: it returns a list for every input, the
  exceptions of \<open>JSON.parse\<close> and of the coercions being caught. A missing or empty
  input, text that is not JSON and JSON whose top-level value is not an array give the
  empty list (and generate no identifier).
\<close>

theorem parseSegmentsParam_total:
  "(\<exists>segs k'. parseSegmentsParam p k v = Inr (segs, k')) \<and>
   parseSegmentsParam p k None = Inr ([], k) \<and>
   parseSegmentsParam p k (Some []) = Inr ([], k) \<and>
   (JSON_parse p text = None \<longrightarrow> parseSegmentsParam p k (Some text) = Inr ([], k)) \<and>
   ((\<exists>j. JSON_parse p text = Some j \<and> \<not> isArray j) \<longrightarrow>
      parseSegmentsParam p k (Some text) = Inr ([], k))"
proof (intro conjI impI)
  show "\<exists>segs k'. parseSegmentsParam p k v = Inr (segs, k')"
    by (cases v; cases "parseSegmentsParam_try p k (the v)")
       (auto simp: parseSegmentsParam_def)
next
  show "parseSegmentsParam p k None = Inr ([], k)"
    by (simp add: parseSegmentsParam_def)
next
  show "parseSegmentsParam p k (Some []) = Inr ([], k)"
    by (simp add: parseSegmentsParam_def)
next
  assume "JSON_parse p text = None"
  then show "parseSegmentsParam p k (Some text) = Inr ([], k)"
    by (simp add: parseSegmentsParam_def parseSegmentsParam_try_def)
next
  assume "\<exists>j. JSON_parse p text = Some j \<and> \<not> isArray j"
  then obtain j where "JSON_parse p text = Some j" "\<not> isArray j" by blast
  then show "parseSegmentsParam p k (Some text) = Inr ([], k)"
    by (cases j) (simp_all add: parseSegmentsParam_def parseSegmentsParam_try_def)
qed

theorem parseSegmentsParam_total_witness:
  "JSON_parse js ''nope'' = None \<and>
   parseSegmentsParam_try js 0 ''nope'' = Inl SyntaxError \<and>
   parseSegmentsParam js 0 (Some ''nope'') = Inr ([], 0) \<and>
   JSON_parse js ''{}'' = Some (JObj []) \<and>
   parseSegmentsParam js 0 (Some ''{}'') = Inr ([], 0)"
proof -
  have a: "JSON_parse js ''nope'' = None" by code_simp
  have b: "JSON_parse js ''{}'' = Some (JObj [])" by code_simp
  have t: "parseSegmentsParam_try js 0 ''nope'' = Inl SyntaxError"
    by (simp add: parseSegmentsParam_try_def a)
  from b have c: "\<exists>j. JSON_parse js ''{}'' = Some j \<and> \<not> isArray j" by simp
  show ?thesis
    using parseSegmentsParam_total [of js 0 None "''nope''"]
          parseSegmentsParam_total [of js 0 None "''{}''"] a b c t
    by blast
qed

section \<open>The round trip of the segment codec\<close>

text \<open>What the round trip keeps of a segment: everything but the identifier.\<close>

definition triple :: "LoopSegment \<Rightarrow> string \<times> number \<times> number" where
  "triple s = (seg_label s, seg_start s, seg_end s)"

definition sorted_by_start :: "LoopSegment list \<Rightarrow> bool" where
  "sorted_by_start L = sorted_wrt (\<lambda>a b. num_le (seg_start a) (seg_start b)) L"

text \<open>
  The segments the decoder leaves as they are: the label is not empty and has no white
  space at its ends, the bounds are finite, not negative, in order, and already rounded
  to two decimals.
\<close>

definition sanitized :: "LoopSegment \<Rightarrow> bool" where
  "sanitized s =
     (seg_label s \<noteq> [] \<and> trim (seg_label s) = seg_label s \<and>
      isFinite (seg_start s) \<and> isFinite (seg_end s) \<and>
      num_le (Fin 0) (seg_start s) \<and> num_le (seg_start s) (seg_end s) \<and>
      toFixed2 (seg_start s) = seg_start s \<and> toFixed2 (seg_end s) = seg_end s)"

text \<open>The object \<open>serializeSegments\<close> makes of a segment.\<close>

definition entry_of :: "LoopSegment \<Rightarrow> json" where
  "entry_of segment = JObj [(''label'', JStr (seg_label segment)),
                            (''start'', JNum (toFixed2 (seg_start segment))),
                            (''end'', JNum (toFixed2 (seg_end segment)))]"

lemma payload_entries: "payload L = JArr (map entry_of L)"
  by (simp add: payload_def entry_of_def)

lemma sanitizeTimestamp_fixed:
  assumes "isFinite x" "num_le (Fin 0) x" "toFixed2 x = x"
  shows "sanitizeTimestamp (Some (JNum (toFixed2 x))) = Inr (Some x)"
proof -
  from assms(1) obtain a where x: "x = Fin a" by (cases x) auto
  with assms(2) have "0 \<le> a" by simp
  then have "Math_max (Fin 0) (Fin a) = Fin a"
    by (simp add: Math_max_def)
  with assms(3) show ?thesis
    by (simp add: sanitizeTimestamp_def x)
qed

lemma num_le_trans: "num_le a b \<Longrightarrow> num_le b c \<Longrightarrow> num_le a c"
  by (cases a; cases b; cases c) auto

lemma segment_of_entry_sanitized:
  assumes "sanitized s"
  shows "segment_of_entry p k (entry_of s) i =
           Inr (Some (s\<lparr>seg_id := randomUUID p k\<rparr>), Suc k)"
proof -
  from assms have lab: "seg_label s \<noteq> []" "trim (seg_label s) = seg_label s"
    and fin: "isFinite (seg_start s)" "isFinite (seg_end s)"
    and pos: "num_le (Fin 0) (seg_start s)"
    and le: "num_le (seg_start s) (seg_end s)"
    and fixd: "toFixed2 (seg_start s) = seg_start s" "toFixed2 (seg_end s) = seg_end s"
    by (simp_all add: sanitized_def)
  from pos le have pos': "num_le (Fin 0) (seg_end s)" by (rule num_le_trans)
  have st: "sanitizeTimestamp (Some (JNum (toFixed2 (seg_start s)))) = Inr (Some (seg_start s))"
    using fin(1) pos fixd(1) by (rule sanitizeTimestamp_fixed)
  have en: "sanitizeTimestamp (Some (JNum (toFixed2 (seg_end s)))) = Inr (Some (seg_end s))"
    using fin(2) pos' fixd(2) by (rule sanitizeTimestamp_fixed)
  from le have mm: "Math_min (seg_start s) (seg_end s) = seg_start s"
    "Math_max (seg_start s) (seg_end s) = seg_end s"
    by (cases "seg_start s"; cases "seg_end s"; simp add: Math_min_def Math_max_def)+
  have props: "get_prop (entry_of s) ''label'' = Some (JStr (seg_label s))"
    "get_prop (entry_of s) ''start'' = Some (JNum (toFixed2 (seg_start s)))"
    "get_prop (entry_of s) ''end'' = Some (JNum (toFixed2 (seg_end s)))"
    "is_object (entry_of s)"
    by (simp_all add: entry_of_def)
  show ?thesis
    unfolding segment_of_entry_def Let_def
    by (simp add: props st en lab mm generateSegmentId_def)
qed

lemma map_entries_sanitized:
  assumes "list_all sanitized L"
  shows "\<exists>segs. map_entries p k (map entry_of L) i = Inr (map Some segs, k + length L) \<and>
           map triple segs = map triple L"
  using assms
proof (induction L arbitrary: k i)
  case Nil
  then show ?case by simp
next
  case (Cons s L)
  then have s: "sanitized s" and L: "list_all sanitized L" by simp_all
  from Cons.IH [OF L, of "Suc k" "Suc i"] obtain segs where
    segs: "map_entries p (Suc k) (map entry_of L) (Suc i) = Inr (map Some segs, Suc k + length L)"
      "map triple segs = map triple L"
    by blast
  have "map_entries p k (map entry_of (s # L)) i =
      Inr (map Some (s\<lparr>seg_id := randomUUID p k\<rparr> # segs), k + length (s # L))"
    by (simp add: segment_of_entry_sanitized [OF s] segs(1))
  moreover have "map triple (s\<lparr>seg_id := randomUUID p k\<rparr> # segs) = map triple (s # L)"
    by (simp add: segs(2) triple_def)
  ultimately show ?case by blast
qed

lemma Array_sort_sorted:
  "sorted_wrt (\<lambda>a b. not_after (cmp a b)) xs \<Longrightarrow> Array_sort cmp xs = xs"
proof (induction xs)
  case Nil
  then show ?case by (simp add: Array_sort_def)
next
  case (Cons x xs)
  then have IH: "foldr (insort_cmp cmp) xs [] = xs" by (simp add: Array_sort_def)
  show ?case
  proof (cases xs)
    case Nil
    then show ?thesis by (simp add: Array_sort_def)
  next
    case (Cons y ys)
    with Cons.prems have "not_after (cmp x y)" by simp
    with Cons IH show ?thesis by (simp add: Array_sort_def)
  qed
qed

lemma sorted_by_start_triples:
  assumes "map triple segs = map triple L" "sorted_by_start L" "list_all sanitized L"
  shows "sorted_wrt (\<lambda>a b. not_after (by_start a b)) segs"
proof -
  from assms(1) have "map (\<lambda>t. fst (snd t)) (map triple segs) = map (\<lambda>t. fst (snd t)) (map triple L)"
    by simp
  then have starts: "map seg_start segs = map seg_start L"
    by (simp add: triple_def o_def)
  have step: "not_after (by_start a b)"
    if "a \<in> set L" "b \<in> set L" "num_le (seg_start a) (seg_start b)" for a b
  proof -
    from that(1,2) assms(3) have "isFinite (seg_start a)" "isFinite (seg_start b)"
      by (simp_all add: list_all_iff sanitized_def)
    with that(3) show ?thesis
      by (cases "seg_start a"; cases "seg_start b")
         (simp_all add: not_after_def by_start_def num_sub_def num_gt_def)
  qed
  have "sorted_wrt (\<lambda>a b. not_after (by_start a b)) L"
    using step assms(2) unfolding sorted_by_start_def by (rule sorted_wrt_mono_rel)
  then have "sorted_wrt (\<lambda>x y. not_after (num_sub x y)) (map seg_start L)"
    by (simp add: sorted_wrt_map by_start_def)
  then have "sorted_wrt (\<lambda>x y. not_after (num_sub x y)) (map seg_start segs)"
    by (simp only: starts)
  then show ?thesis
    by (simp add: sorted_wrt_map by_start_def)
qed

text \<open>
  Claim C1, amended. For every list of sanitized segments that is sorted ascending by
  start, decoding the encoding gives the same (label, start, end) triples in the same
  order, on every platform whose \<open>JSON.parse\<close> reads back what its \<open>JSON.stringify\<close>
  printed for the list.
\<close>

theorem codec_round_trip:
  assumes platform: "L \<noteq> [] \<longrightarrow>
      (\<exists>text. JSON_stringify p (payload L) = Some text \<and> text \<noteq> [] \<and>
              JSON_parse p text = Some (payload L))"
    and clean: "list_all sanitized L"
    and sorted: "sorted_by_start L"
  shows "\<exists>segs k'. parseSegmentsParam p k (serializeSegments p L) = Inr (segs, k') \<and>
           map triple segs = map triple L"
proof (cases L)
  case Nil
  then show ?thesis
    by (simp add: serializeSegments_def parseSegmentsParam_def)
next
  case (Cons s L')
  with platform obtain tx where enc: "JSON_stringify p (payload L) = Some tx" "tx \<noteq> []"
    "JSON_parse p tx = Some (payload L)"
    by auto
  from map_entries_sanitized [OF clean, of p k 0] obtain segs where
    segs: "map_entries p k (map entry_of L) 0 = Inr (map Some segs, k + length L)"
      "map triple segs = map triple L"
    by blast
  have "Array_sort by_start segs = segs"
    using segs(2) sorted clean by (intro Array_sort_sorted sorted_by_start_triples)
  moreover have "List.map_filter (\<lambda>s. s) (map Some segs) = segs"
    by (induction segs) (simp_all add: List.map_filter_simps)
  ultimately have "parseSegmentsParam_try p k tx = Inr (segs, k + length L)"
    by (simp add: parseSegmentsParam_try_def enc(3) payload_entries segs(1))
  moreover have "serializeSegments p L = Some tx"
    using Cons enc(1) by (simp add: serializeSegments_def)
  ultimately have "parseSegmentsParam p k (serializeSegments p L) = Inr (segs, k + length L)"
    using enc(2) by (simp add: parseSegmentsParam_def)
  with segs(2) show ?thesis by blast
qed

definition L_ok :: "LoopSegment list" where
  "L_ok = [\<lparr>seg_id = ''a'', seg_label = ''Intro'', seg_start = Fin 0, seg_end = Fin (3 / 2)\<rparr>,
           \<lparr>seg_id = ''b'', seg_label = ''Solo, take 2'', seg_start = Fin (1234 / 100),
            seg_end = Fin 20\<rparr>]"

theorem codec_round_trip_witness:
  "list_all sanitized L_ok \<and> sorted_by_start L_ok \<and>
   JSON_parse js (JSON_stringify_model (payload L_ok)) = Some (payload L_ok) \<and>
   (\<exists>segs k'. parseSegmentsParam js 0 (serializeSegments js L_ok) = Inr (segs, k') \<and>
              map triple segs = map triple L_ok)"
proof -
  have clean: "list_all sanitized L_ok" unfolding L_ok_def by code_simp
  have sorted: "sorted_by_start L_ok" unfolding L_ok_def by code_simp
  have printed: "JSON_stringify js (payload L_ok) = Some (JSON_stringify_model (payload L_ok))"
    by (simp add: js_def)
  have ne: "JSON_stringify_model (payload L_ok) \<noteq> []"
    unfolding L_ok_def by code_simp
  have reads: "JSON_parse js (JSON_stringify_model (payload L_ok)) = Some (payload L_ok)"
    unfolding L_ok_def by code_simp
  from printed ne reads have "L_ok \<noteq> [] \<longrightarrow>
      (\<exists>tx. JSON_stringify js (payload L_ok) = Some tx \<and> tx \<noteq> [] \<and>
            JSON_parse js tx = Some (payload L_ok))"
    by blast
  from codec_round_trip [OF this clean sorted, of 0] clean sorted reads
  show ?thesis by blast
qed

text \<open>
  The claim as the specification states it asks only for \<open>start \<le> end\<close> and the order
  by start. It fails on a label with white space at an end (the decoder trims it), on a
  bound with more than two decimals (the encoder rounds it), on a negative bound (the
  decoder clamps it to 0) and on an infinite bound (printed as \<open>null\<close>, read back as 0).
\<close>

theorem codec_round_trip_counterexample:
  "sorted_by_start [\<lparr>seg_id = ''a'', seg_label = '' A'', seg_start = Fin 0, seg_end = Fin 1\<rparr>] \<and>
   num_le (Fin 0) (Fin 1) \<and>
   parseSegmentsParam js 0
     (serializeSegments js [\<lparr>seg_id = ''a'', seg_label = '' A'', seg_start = Fin 0, seg_end = Fin 1\<rparr>])
     = Inr ([\<lparr>seg_id = ''seg-0'', seg_label = ''A'', seg_start = Fin 0, seg_end = Fin 1\<rparr>], 1) \<and>
   triple \<lparr>seg_id = ''seg-0'', seg_label = ''A'', seg_start = Fin 0, seg_end = Fin 1\<rparr>
     \<noteq> triple \<lparr>seg_id = ''a'', seg_label = '' A'', seg_start = Fin 0, seg_end = Fin 1\<rparr> \<and>
   num_le (Fin (1234 / 1000)) (Fin 2) \<and>
   parseSegmentsParam js 0
     (serializeSegments js
        [\<lparr>seg_id = ''a'', seg_label = ''A'', seg_start = Fin (1234 / 1000), seg_end = Fin 2\<rparr>])
     = Inr ([\<lparr>seg_id = ''seg-0'', seg_label = ''A'', seg_start = Fin (123 / 100),
              seg_end = Fin 2\<rparr>], 1) \<and>
   num_le (Fin (- 1)) (Fin 2) \<and>
   parseSegmentsParam js 0
     (serializeSegments js
        [\<lparr>seg_id = ''a'', seg_label = ''A'', seg_start = Fin (- 1), seg_end = Fin 2\<rparr>])
     = Inr ([\<lparr>seg_id = ''seg-0'', seg_label = ''A'', seg_start = Fin 0, seg_end = Fin 2\<rparr>], 1) \<and>
   num_le (Fin 0) PosInf \<and>
   parseSegmentsParam js 0
     (serializeSegments js
        [\<lparr>seg_id = ''a'', seg_label = ''A'', seg_start = Fin 0, seg_end = PosInf\<rparr>])
     = Inr ([\<lparr>seg_id = ''seg-0'', seg_label = ''A'', seg_start = Fin 0, seg_end = Fin 0\<rparr>], 1)"
  by code_simp

section \<open>The timestamp codec (lib/segments.ts)\<close>


text \<open>The pattern \<open>/^\d+$/\<close>.\<close>

definition digits_only :: "string \<Rightarrow> bool" where
  "digits_only s = (s \<noteq> [] \<and> list_all is_digit s)"

text \<open>
  The loop of \<open>parseTimestampInput\<close> over the parts from the last to the first:
  \<open>is_last\<close> holds in the first round, for the part at index \<open>parts.length - 1\<close>.
  \<open>None\<close> is the \<open>null\<close> the loop returns early.
\<close>

fun parts_loop :: "string list \<Rightarrow> bool \<Rightarrow> number \<Rightarrow> number \<Rightarrow> number option" where
  "parts_loop [] is_last totalSeconds multiplier = Some totalSeconds"
| "parts_loop (part # rest) is_last totalSeconds multiplier =
     (if part = [] then None
      else if is_last then
        (let numeric = StringToNumber part in
         if isNaN numeric then None
         else parts_loop rest False (num_add totalSeconds (num_mul numeric multiplier))
                (num_mul multiplier (Fin 60)))
      else if \<not> digits_only part then None
      else (let numeric = parseInt10 part in
            parts_loop rest False (num_add totalSeconds (num_mul numeric multiplier))
              (num_mul multiplier (Fin 60))))"

definition parseTimestampInput :: "string \<Rightarrow> number option" where
  "parseTimestampInput v =
     (let trimmed = trim v in
      if trimmed = [] then None
      else if CHR '':'' \<notin> set trimmed then
        (let asNumber = StringToNumber trimmed in
         if isNaN asNumber then None else Some (Math_max (Fin 0) asNumber))
      else
        (case parts_loop (rev (split_on CHR '':'' trimmed)) True (Fin 0) (Fin 1) of
           None \<Rightarrow> None
         | Some totalSeconds \<Rightarrow> Some (Math_max (Fin 0) (toFixed2 totalSeconds))))"

section \<open>The colon-free branch of the timestamp parser\<close>

text \<open>
  Claim C4. On a trimmed, non-empty input without a colon, \<open>parseTimestampInput\<close>
  returns \<open>Number(text)\<close> clamped to 0 from below, or nothing when that is \<open>NaN\<close>. This
  branch does not round: \<open>1.234\<close> is returned as it is, where the claim asks for 1.23;
  the branch for inputs with a colon does round, \<open>0:1.234\<close> gives 1.23.
\<close>

theorem parseTimestampInput_no_colon_unrounded:
  "trim ''1.234'' = ''1.234'' \<and> CHR '':'' \<notin> set ''1.234'' \<and>
   parseTimestampInput ''1.234'' = Some (Fin (1234 / 1000)) \<and>
   Math_max (Fin 0) (toFixed2 (StringToNumber ''1.234'')) = Fin (123 / 100) \<and>
   parseTimestampInput ''0:1.234'' = Some (Fin (123 / 100))"
  by code_simp

section \<open>The round trip of the editable timestamp\<close>



































section \<open>The application state controller (hooks/use-looper-state)\<close>

text \<open>
  The state variables of \<open>useLooperState\<close>, and with them the count of identifiers
  generated so far. A handler is a function from the state when it is called to the
  state after its updates; the effects that run on a later render are functions of
  their own.
\<close>

record looper_state =
  inputValue :: string
  videoId :: "string option"
  inputError :: "string option"
  loopSegments :: "LoopSegment list"
  selectedSegmentId :: "string option"
  currentTime :: number
  duration :: number
  isPlaying :: bool
  loopingEnabled :: bool
  playbackRate :: number
  draftLabel :: string
  draftStart :: "number option"
  draftEnd :: "number option"
  draftStartInput :: string
  draftEndInput :: string
  isInputDirty :: bool
  ids_generated :: nat


definition resetDraft :: "looper_state \<Rightarrow> looper_state" where
  "resetDraft st =
     st\<lparr>draftStart := None, draftEnd := None, draftLabel := [],
        draftStartInput := [], draftEndInput := []\<rparr>"



text \<open>
  \<open>handleSubmit\<close>. The extractor is a parameter: either version of \<open>extractYouTubeId\<close>
  over the platform's \<open>URL\<close> constructor. An identifier that is the empty string is
  falsy, like \<open>null\<close>. (\<open>event.preventDefault()\<close> touches no state.)
\<close>

definition INVALID_INPUT :: string where
  "INVALID_INPUT = ''Please enter a valid YouTube URL or ID.''"

definition first_id :: "LoopSegment list \<Rightarrow> string option" where
  "first_id segs = (case segs of [] \<Rightarrow> None | s # rest \<Rightarrow> Some (seg_id s))"

definition handleSubmit :: "platform \<Rightarrow> (string \<Rightarrow> string option) \<Rightarrow> looper_state \<Rightarrow> exn + looper_state" where
  "handleSubmit p extractId st =
     (case extractId (inputValue st) of
        None \<Rightarrow> Inr (st\<lparr>inputError := Some INVALID_INPUT\<rparr>)
      | Some [] \<Rightarrow> Inr (st\<lparr>inputError := Some INVALID_INPUT\<rparr>)
      | Some (c # cs) \<Rightarrow>
          (case extractSegmentsFromInput p (ids_generated st) (inputValue st) of
             Inl e \<Rightarrow> Inl e
           | Inr (parsedSegments, k) \<Rightarrow>
               Inr (resetDraft
                      (st\<lparr>inputError := None,
                          videoId := Some (c # cs),
                          loopSegments := parsedSegments,
                          selectedSegmentId := first_id parsedSegments,
                          ids_generated := k\<rparr>)
                    \<lparr>currentTime := Fin 0, duration := Fin 0, isPlaying := False,
                     isInputDirty := False\<rparr>)))"

definition handleRemoveSegment :: "string \<Rightarrow> looper_state \<Rightarrow> looper_state" where
  "handleRemoveSegment rid st =
     st\<lparr>loopSegments := filter (\<lambda>segment. seg_id segment \<noteq> rid) (loopSegments st),
        selectedSegmentId := (if selectedSegmentId st = Some rid then None
                              else selectedSegmentId st)\<rparr>"

definition handleClearSegments :: "looper_state \<Rightarrow> looper_state" where
  "handleClearSegments st = st\<lparr>loopSegments := [], selectedSegmentId := None\<rparr>"

text \<open>
  The effect that runs after a render in which \<open>videoId\<close>, \<open>loopSegments\<close> or
  \<open>isInputDirty\<close> changed: it puts the canonical link into the input field unless the
  field is being edited.
\<close>

definition sync_input_effect :: "platform \<Rightarrow> looper_state \<Rightarrow> looper_state" where
  "sync_input_effect p st =
     (case videoId st of
        None \<Rightarrow> st
      | Some vid \<Rightarrow>
          if vid = [] \<or> isInputDirty st then st
          else st\<lparr>inputValue := buildVideoLink p vid (loopSegments st)\<rparr>)"

section \<open>Sorting by start\<close>









section \<open>Committing the draft\<close>





lemma Math_min_max_not_NaN:
  "\<not> isNaN a \<Longrightarrow> \<not> isNaN b \<Longrightarrow> \<not> isNaN (Math_min a b) \<and> \<not> isNaN (Math_max a b)"
  by (cases a; cases b) (simp_all add: Math_min_def Math_max_def)

lemma Math_min_le_max:
  "\<not> isNaN a \<Longrightarrow> \<not> isNaN b \<Longrightarrow> num_le (Math_min a b) (Math_max a b)"
  by (cases a; cases b) (simp_all add: Math_min_def Math_max_def)

lemma Math_min_ge:
  "num_le lo a \<Longrightarrow> num_le lo b \<Longrightarrow> num_le lo (Math_min a b)"
  by (cases a; cases b) (simp_all add: Math_min_def)

lemma Math_max_le:
  "num_le a hi \<Longrightarrow> num_le b hi \<Longrightarrow> num_le (Math_max a b) hi"
  by (cases a; cases b) (simp_all add: Math_max_def)





text \<open>Two states to evaluate the handlers on: the draft of the first has no end.\<close>

definition st0 :: looper_state where
  "st0 = \<lparr>inputValue = ''not a video'', videoId = Some ''dQw4w9WgXcQ'', inputError = None,
          loopSegments = L_ok, selectedSegmentId = Some ''a'',
          currentTime = Fin 3, duration = Fin 10, isPlaying = True, loopingEnabled = True,
          playbackRate = Fin 1, draftLabel = ''  '', draftStart = Some (Fin 1), draftEnd = None,
          draftStartInput = ''00:01'', draftEndInput = [], isInputDirty = True,
          ids_generated = 2\<rparr>"



text \<open>
  Claim C8. When the extractor returns nothing for the input text, \<open>handleSubmit\<close> sets
  the validation message and changes nothing else: identifier, segments, selection,
  draft and playback state are as before.
\<close>

theorem handleSubmit_invalid:
  "extractId (inputValue st) = None \<Longrightarrow>
   handleSubmit p extractId st = Inr (st\<lparr>inputError := Some INVALID_INPUT\<rparr>)"
  by (simp add: handleSubmit_def)

theorem handleSubmit_invalid_witness:
  "extractYouTubeId URL_parse (inputValue st0) = None \<and>
   extractYouTubeId_v1 URL_parse (inputValue st0) = None \<and>
   handleSubmit js (extractYouTubeId URL_parse) st0 = Inr (st0\<lparr>inputError := Some INVALID_INPUT\<rparr>) \<and>
   handleSubmit js (extractYouTubeId_v1 URL_parse) st0 = Inr (st0\<lparr>inputError := Some INVALID_INPUT\<rparr>)"
proof -
  have a: "extractYouTubeId URL_parse (inputValue st0) = None"
    unfolding st0_def L_ok_def by code_simp
  have b: "extractYouTubeId_v1 URL_parse (inputValue st0) = None"
    unfolding st0_def L_ok_def by code_simp
  from handleSubmit_invalid [of "extractYouTubeId URL_parse" st0 js, OF a]
       handleSubmit_invalid [of "extractYouTubeId_v1 URL_parse" st0 js, OF b] a b
  show ?thesis by simp
qed

text \<open>
  Claim C10. \<open>handleRemoveSegment\<close> and \<open>handleClearSegments\<close> change the segment list
  and the selection only; removing a segment that is not the selected one keeps the
  selection.
\<close>

theorem removal_frame:
  "(st' = handleRemoveSegment rid st \<or> st' = handleClearSegments st \<longrightarrow>
      videoId st' = videoId st \<and> inputValue st' = inputValue st \<and>
      isInputDirty st' = isInputDirty st \<and>
      draftLabel st' = draftLabel st \<and> draftStart st' = draftStart st \<and>
      draftEnd st' = draftEnd st \<and> draftStartInput st' = draftStartInput st \<and>
      draftEndInput st' = draftEndInput st \<and>
      currentTime st' = currentTime st \<and> duration st' = duration st \<and>
      isPlaying st' = isPlaying st \<and> playbackRate st' = playbackRate st \<and>
      loopingEnabled st' = loopingEnabled st \<and>
      st' = st\<lparr>loopSegments := loopSegments st', selectedSegmentId := selectedSegmentId st'\<rparr>) \<and>
   (selectedSegmentId st \<noteq> Some rid \<longrightarrow>
      selectedSegmentId (handleRemoveSegment rid st) = selectedSegmentId st)"
  by (auto simp: handleRemoveSegment_def handleClearSegments_def)

theorem removal_frame_witness:
  "selectedSegmentId st0 \<noteq> Some ''b'' \<and>
   selectedSegmentId (handleRemoveSegment ''b'' st0) = selectedSegmentId st0 \<and>
   map seg_id (loopSegments (handleRemoveSegment ''b'' st0)) = [''a''] \<and>
   inputValue (handleRemoveSegment ''b'' st0) = inputValue st0 \<and>
   inputValue (handleClearSegments st0) = inputValue st0"
proof -
  have a: "selectedSegmentId st0 \<noteq> Some ''b''" by (simp add: st0_def)
  have b: "map seg_id (loopSegments (handleRemoveSegment ''b'' st0)) = [''a'']"
    by (simp add: st0_def handleRemoveSegment_def L_ok_def)
  from removal_frame [of "handleRemoveSegment ''b'' st0" "''b''" st0]
       removal_frame [of "handleClearSegments st0" "''b''" st0] a b
  show ?thesis by blast
qed

text \<open>
  The handlers leave the input text alone; the effect of the render that follows puts
  the link of the new segment list there when a video is loaded and the field is not
  being edited.
\<close>

lemma removal_then_sync:
  "inputValue (sync_input_effect js (handleClearSegments (st0\<lparr>isInputDirty := False\<rparr>)))
     = ''https://www.youtube.com/watch?v=dQw4w9WgXcQ''"
  unfolding st0_def L_ok_def by code_simp

end
